theory Spec2Isabelle
  imports Complex_Main "HOL-Library.Word"
begin

section \<open>Go integers\<close>

text \<open>
  Go's \<open>int\<close> is modelled on a 64-bit platform: a two's complement value in
  \<open>[-2^63, 2^63)\<close>.  Arithmetic whose operands come from the request or from an image
  wraps around, and the wrap-around is written out with \<open>wrap64\<close>.  Loop counters that stay
  below an \<open>int\<close> bound are incremented with plain \<open>+\<close>.
\<close>

definition wrap64 :: "int \<Rightarrow> int" where
  "wrap64 x = (x + 2 ^ 63) mod 2 ^ 64 - 2 ^ 63"

definition iadd :: "int \<Rightarrow> int \<Rightarrow> int" where
  "iadd a b = wrap64 (a + b)"

definition isub :: "int \<Rightarrow> int \<Rightarrow> int" where
  "isub a b = wrap64 (a - b)"

definition imul :: "int \<Rightarrow> int \<Rightarrow> int" where
  "imul a b = wrap64 (a * b)"

text \<open>Go's \<open>/\<close> on integers truncates toward zero.\<close>

definition idiv :: "int \<Rightarrow> int \<Rightarrow> int" where
  "idiv a b = wrap64 (sgn a * sgn b * (\<bar>a\<bar> div \<bar>b\<bar>))"

section \<open>Points and rectangles of package image\<close>

record point =
  px :: int
  py :: int

record rectangle =
  rmin :: point
  rmax :: point

definition Pt :: "int \<Rightarrow> int \<Rightarrow> point" where
  "Pt x y = \<lparr>px = x, py = y\<rparr>"

text \<open>\<open>image.Rect\<close> swaps the coordinates where needed, so that \<open>Min \<le> Max\<close>.\<close>

definition Rect :: "int \<Rightarrow> int \<Rightarrow> int \<Rightarrow> int \<Rightarrow> rectangle" where
  "Rect x0 y0 x1 y1 =
     \<lparr>rmin = Pt (if x0 > x1 then x1 else x0) (if y0 > y1 then y1 else y0),
      rmax = Pt (if x0 > x1 then x0 else x1) (if y0 > y1 then y0 else y1)\<rparr>"

definition Dx :: "rectangle \<Rightarrow> int" where
  "Dx r = isub (px (rmax r)) (px (rmin r))"

definition Dy :: "rectangle \<Rightarrow> int" where
  "Dy r = isub (py (rmax r)) (py (rmin r))"

definition Empty :: "rectangle \<Rightarrow> bool" where
  "Empty r \<longleftrightarrow> px (rmin r) \<ge> px (rmax r) \<or> py (rmin r) \<ge> py (rmax r)"

text \<open>\<open>p.In(r)\<close>: the rectangle contains its minimum and excludes its maximum.\<close>

definition In :: "point \<Rightarrow> rectangle \<Rightarrow> bool" where
  "In p r \<longleftrightarrow> px (rmin r) \<le> px p \<and> px p < px (rmax r) \<and>
              py (rmin r) \<le> py p \<and> py p < py (rmax r)"

section \<open>Grid geometry of the slicer\<close>

text \<open>The constant \<open>tileSize\<close> of both handlers.\<close>

definition tileSize :: int where
  "tileSize = 512"

text \<open>
  \<open>cols := (bounds.Max.X + tileSize - 1) / tileSize\<close> and
  \<open>rows := (bounds.Max.Y + tileSize - 1) / tileSize\<close> of \<open>uploadPuzzleHandler\<close>.
\<close>

definition gridCols :: "rectangle \<Rightarrow> int" where
  "gridCols bounds = idiv (isub (iadd (px (rmax bounds)) tileSize) 1) tileSize"

definition gridRows :: "rectangle \<Rightarrow> int" where
  "gridRows bounds = idiv (isub (iadd (py (rmax bounds)) tileSize) 1) tileSize"

text \<open>The body of the slicing loop up to \<open>tileRect := image.Rect(x0, y0, x1, y1)\<close>.\<close>

definition tileRect :: "rectangle \<Rightarrow> int \<Rightarrow> int \<Rightarrow> rectangle" where
  "tileRect bounds r c =
     (let x0 = imul c tileSize;
          y0 = imul r tileSize;
          x1 = iadd x0 tileSize;
          y1 = iadd y0 tileSize;
          x1' = (if x1 > px (rmax bounds) then px (rmax bounds) else x1);
          y1' = (if y1 > py (rmax bounds) then py (rmax bounds) else y1)
      in Rect x0 y0 x1' y1')"




section \<open>Decimal text: package fmt\<close>

definition isDigit :: "char \<Rightarrow> bool" where
  "isDigit c \<longleftrightarrow> 48 \<le> (of_char c :: nat) \<and> (of_char c :: nat) \<le> 57"

definition digitVal :: "char \<Rightarrow> nat" where
  "digitVal c = of_char c - 48"

definition digitChar :: "nat \<Rightarrow> char" where
  "digitChar d = ''0123456789'' ! d"

fun digits :: "nat \<Rightarrow> string" where
  "digits n = (if n < 10 then [digitChar n] else digits (n div 10) @ [digitChar (n mod 10)])"

declare digits.simps [simp del]

definition decimal :: "string \<Rightarrow> nat" where
  "decimal ds = foldl (\<lambda>a c. 10 * a + digitVal c) 0 ds"

text \<open>The verb \<open>%d\<close> of \<open>fmt.Sprintf\<close>.\<close>

definition fmt_d :: "int \<Rightarrow> string" where
  "fmt_d n = (if n < 0 then CHR ''-'' # digits (nat (- n)) else digits (nat n))"

text \<open>
  The verb \<open>%04d\<close>: zeros fill the text up to four characters, after the sign;
  a longer number is printed in full.
\<close>

definition fmt_04d :: "int \<Rightarrow> string" where
  "fmt_04d n =
     (if n < 0 then CHR ''-'' # replicate (3 - length (digits (nat (- n)))) CHR ''0'' @ digits (nat (- n))
      else replicate (4 - length (digits (nat n))) CHR ''0'' @ digits (nat n))"

text \<open>
  The space characters that \<open>fmt\<close> skips before a number, as UTF-8 byte sequences:
  U+0009, U+000B to U+000D, U+0020, U+0085, U+00A0, U+1680, U+2000 to U+200A, U+2028,
  U+2029, U+202F, U+205F and U+3000.  \<open>spaceLen\<close> is the number of bytes of such a
  character at the head of the input, 0 when there is none.  The newline U+000A is an
  error for \<open>Sscanf\<close> and is handled by \<open>SkipSpace\<close>.
\<close>

definition space3 :: "nat \<Rightarrow> nat \<Rightarrow> nat \<Rightarrow> bool" where
  "space3 b0 b1 b2 \<longleftrightarrow>
     b0 = 0xE1 \<and> b1 = 0x9A \<and> b2 = 0x80 \<or>
     b0 = 0xE2 \<and> b1 = 0x80 \<and> (0x80 \<le> b2 \<and> b2 \<le> 0x8A \<or> b2 = 0xA8 \<or> b2 = 0xA9 \<or> b2 = 0xAF) \<or>
     b0 = 0xE2 \<and> b1 = 0x81 \<and> b2 = 0x9F \<or>
     b0 = 0xE3 \<and> b1 = 0x80 \<and> b2 = 0x80"

fun spaceLen :: "string \<Rightarrow> nat" where
  "spaceLen [] = 0"
| "spaceLen (c0 # cs) =
     (if of_char c0 \<in> {9, 11, 12, 13, 32 :: nat} then 1
      else case cs of
        [] \<Rightarrow> 0
      | c1 # cs' \<Rightarrow>
          if of_char c0 = (0xC2 :: nat) \<and> of_char c1 \<in> {0x85, 0xA0 :: nat} then 2
          else case cs' of
            [] \<Rightarrow> 0
          | c2 # _ \<Rightarrow> if space3 (of_char c0) (of_char c1) (of_char c2) then 3 else 0)"

function SkipSpace :: "string \<Rightarrow> string option" where
  "SkipSpace s =
     (if s = [] then Some []
      else if hd s = CHR 0x0A then None
      else if spaceLen s = 0 then Some s
      else SkipSpace (drop (spaceLen s) s))"
  by pat_completeness auto
termination
  by (relation "measure length") auto

declare SkipSpace.simps [simp del]

text \<open>
  \<open>scanInt\<close> for the verb \<open>%d\<close> and a 64-bit \<open>int\<close>: spaces, an optional sign, at
  least one decimal digit, and \<open>strconv.ParseInt\<close> refusing a value outside
  \<open>[-2^63, 2^63)\<close>.  The result is the number and the rest of the input, or
  \<open>None\<close> for a scanning error.
\<close>

definition scanInt :: "string \<Rightarrow> (int \<times> string) option" where
  "scanInt s =
     (case SkipSpace s of
        None \<Rightarrow> None
      | Some s1 \<Rightarrow>
          let neg = (s1 \<noteq> [] \<and> hd s1 = CHR ''-'');
              s2 = (if s1 \<noteq> [] \<and> (hd s1 = CHR ''+'' \<or> hd s1 = CHR ''-'') then tl s1 else s1);
              tok = takeWhile isDigit s2;
              v = (if neg then - int (decimal tok) else int (decimal tok))
          in if tok = [] then None
             else if v < - (2 ^ 63) \<or> 2 ^ 63 \<le> v then None
             else Some (v, dropWhile isDigit s2))"

text \<open>
  \<open>var r, c int; fmt.Sscanf(pos, "%d,%d", &r, &c)\<close> with the returned error dropped, as
  both loops of \<open>exportPuzzleHandler\<close> call it: the values of \<open>r\<close> and \<open>c\<close> afterwards.
  \<open>Sscanf\<close> stores each operand as soon as it is scanned and stops at the first error, so
  an operand that was not reached keeps its zero value.
\<close>

definition Sscanf_pos :: "string \<Rightarrow> int \<times> int" where
  "Sscanf_pos pos =
     (case scanInt pos of
        None \<Rightarrow> (0, 0)
      | Some (r, rest) \<Rightarrow>
          if rest \<noteq> [] \<and> hd rest = CHR '','' then
            (case scanInt (tl rest) of None \<Rightarrow> (r, 0) | Some (c, _) \<Rightarrow> (r, c))
          else (r, 0))"


section \<open>Images: packages image, image/color and image/draw\<close>

text \<open>
  A colour as \<open>Color.RGBA()\<close> returns it: red, green, blue and alpha, each in
  \<open>[0, 0xffff]\<close>; and a pixel of an \<open>*image.RGBA\<close>, with 8 bits for each.
\<close>

type_synonym color16 = "16 word \<times> 16 word \<times> 16 word \<times> 16 word"
type_synonym color8 = "8 word \<times> 8 word \<times> 8 word \<times> 8 word"

text \<open>An \<open>image.Image\<close>: its \<open>Bounds()\<close> and \<open>At(x, y).RGBA()\<close>.\<close>

record image =
  bounds :: rectangle
  colorAt :: "int \<Rightarrow> int \<Rightarrow> color16"

text \<open>An \<open>*image.RGBA\<close>: its \<open>Rect\<close> and its pixels.\<close>

record rgba =
  rect :: rectangle
  pix :: "int \<Rightarrow> int \<Rightarrow> color8"

definition transparent :: color8 where
  "transparent = (0, 0, 0, 0)"

text \<open>
  \<open>mul3NonNeg\<close> of package image: the product, or \<open>-1\<close> when a factor is negative or a
  product leaves the range of \<open>int\<close>.
\<close>

definition mul3NonNeg :: "int \<Rightarrow> int \<Rightarrow> int \<Rightarrow> int" where
  "mul3NonNeg x y z =
     (if x < 0 \<or> y < 0 \<or> z < 0 then - 1
      else if 2 ^ 64 \<le> x * y then - 1
      else if 2 ^ 64 \<le> x * y * z then - 1
      else if 2 ^ 63 \<le> x * y * z then - 1
      else x * y * z)"

text \<open>
  \<open>image.NewRGBA\<close>: every pixel transparent.  It panics (\<open>None\<close>) when the pixel
  buffer of four bytes for each pixel has no length in \<open>int\<close>.
\<close>

definition NewRGBA :: "rectangle \<Rightarrow> rgba option" where
  "NewRGBA r =
     (if mul3NonNeg 4 (Dx r) (Dy r) < 0 then None
      else Some \<lparr>rect = r, pix = (\<lambda>x y. transparent)\<rparr>)"

definition AddP :: "point \<Rightarrow> point \<Rightarrow> point" where
  "AddP p q = Pt (iadd (px p) (px q)) (iadd (py p) (py q))"

definition SubP :: "point \<Rightarrow> point \<Rightarrow> point" where
  "SubP p q = Pt (isub (px p) (px q)) (isub (py p) (py q))"

definition AddR :: "rectangle \<Rightarrow> point \<Rightarrow> rectangle" where
  "AddR r p = \<lparr>rmin = AddP (rmin r) p, rmax = AddP (rmax r) p\<rparr>"

definition Size :: "rectangle \<Rightarrow> point" where
  "Size r = Pt (Dx r) (Dy r)"

definition ZR :: rectangle where
  "ZR = \<lparr>rmin = Pt 0 0, rmax = Pt 0 0\<rparr>"

definition Intersect :: "rectangle \<Rightarrow> rectangle \<Rightarrow> rectangle" where
  "Intersect r s =
     (let x0 = (if px (rmin r) < px (rmin s) then px (rmin s) else px (rmin r));
          y0 = (if py (rmin r) < py (rmin s) then py (rmin s) else py (rmin r));
          x1 = (if px (rmax r) > px (rmax s) then px (rmax s) else px (rmax r));
          y1 = (if py (rmax r) > py (rmax s) then py (rmax s) else py (rmax r));
          r' = \<lparr>rmin = Pt x0 y0, rmax = Pt x1 y1\<rparr>
      in if Empty r' then ZR else r')"

datatype Op = Over | Src

text \<open>
  One channel of a pixel of the destination after \<open>draw.Draw\<close>, from its old value \<open>d\<close>,
  the channel \<open>s\<close> of the source colour and the alpha \<open>sa\<close> of the source colour:
  \<open>uint8((d*a/m + s) >> 8)\<close> with \<open>m = 0xffff\<close> and \<open>a = (m - sa) * 0x101\<close> for
  \<open>Over\<close>, and \<open>uint8(s >> 8)\<close> for \<open>Src\<close>.
\<close>

definition overChannel :: "8 word \<Rightarrow> 16 word \<Rightarrow> 16 word \<Rightarrow> 8 word" where
  "overChannel d s sa =
     of_nat ((unat d * ((65535 - unat sa) * 257) div 65535 + unat s) div 256)"

definition srcChannel :: "16 word \<Rightarrow> 8 word" where
  "srcChannel s = of_nat (unat s div 256)"

fun blend :: "Op \<Rightarrow> color8 \<Rightarrow> color16 \<Rightarrow> color8" where
  "blend Over (dr, dg, db, da) (sr, sg, sb, sa) =
     (overChannel dr sr sa, overChannel dg sg sa, overChannel db sb sa, overChannel da sa sa)"
| "blend Src d (sr, sg, sb, sa) =
     (srcChannel sr, srcChannel sg, srcChannel sb, srcChannel sa)"

text \<open>
  \<open>draw.Draw(dst, r, src, sp, op)\<close> on an \<open>*image.RGBA\<close>: \<open>r\<close> is clipped to the
  destination and to the source moved so that \<open>sp\<close> lies on \<open>r.Min\<close>; inside, the pixel
  \<open>(x, y)\<close> is combined with the source colour at \<open>sp + (x, y) - r.Min\<close>.
\<close>

definition drawDraw :: "rgba \<Rightarrow> rectangle \<Rightarrow> image \<Rightarrow> point \<Rightarrow> Op \<Rightarrow> rgba" where
  "drawDraw dst r src sp op =
     (let orig = rmin r;
          r1 = Intersect r (rect dst);
          r2 = Intersect r1 (AddR (bounds src) (SubP orig sp))
      in dst\<lparr>pix := (\<lambda>x y.
           if In (Pt x y) r2
           then blend op (pix dst x y)
                  (colorAt src (iadd (isub x (px orig)) (px sp)) (iadd (isub y (py orig)) (py sp)))
           else pix dst x y)\<rparr>)"

text \<open>The image that an \<open>*image.RGBA\<close> is for a reader of \<open>image.Image\<close>.\<close>

definition widen :: "8 word \<Rightarrow> 16 word" where
  "widen v = ucast v * 257"

definition rgbaImage :: "rgba \<Rightarrow> image" where
  "rgbaImage m =
     \<lparr>bounds = rect m,
      colorAt = (\<lambda>x y. if In (Pt x y) (rect m)
                 then (case pix m x y of (r, g, b, a) \<Rightarrow> (widen r, widen g, widen b, widen a))
                 else (0, 0, 0, 0))\<rparr>"

section \<open>Files\<close>

text \<open>The manifest and the entries of the catalog, as the handler marshals them.\<close>

record Manifest =
  Pieces :: "string list"
  Solution :: "string \<rightharpoonup> string"

record IndexEntry =
  Name :: string
  Folder :: string
  Rows :: int
  Cols :: int
  Tl :: string

text \<open>
  What a file holds: an encoded picture (\<open>Raster img\<close>, where \<open>img\<close> is the image that
  \<open>image.Decode\<close> returns for it), a manifest, a catalog, nothing (\<open>Blank\<close>, a file of
  length 0), or bytes that no decoder accepts (\<open>Broken\<close>, as a write that failed leaves
  them).
\<close>

datatype content =
  Raster image
| ManifestJson Manifest
| IndexJson "IndexEntry list"
| Blank
| Broken

text \<open>
  The file system and its failures: the files by path, and the paths at which creating a
  directory, creating a file, writing and reading fail.
\<close>

record world =
  files :: "string \<rightharpoonup> content"
  mkdirFails :: "string \<Rightarrow> bool"
  createFails :: "string \<Rightarrow> bool"
  writeFails :: "string \<Rightarrow> bool"
  readFails :: "string \<Rightarrow> bool"

text \<open>
  The libraries outside the repository: \<open>resize.Resize\<close> with the Lanczos filter, and the
  image that decodes from the JPEG encoding of an image.
\<close>

record libs =
  Resize :: "nat \<Rightarrow> nat \<Rightarrow> image \<Rightarrow> image"
  jpegOf :: "image \<Rightarrow> image"

text \<open>
  \<open>filepath.Join\<close>: the elements that are not empty, with a separator between them.  The
  lexical cleaning of the result (\<open>.\<close>, \<open>..\<close>, doubled separators) is left out; both
  handlers build their paths with this one function and files are looked up by its result.
\<close>

fun Join :: "string list \<Rightarrow> string" where
  "Join [] = []"
| "Join (e # es) =
     (if e = [] then Join es
      else if Join es = [] then e
      else e @ ''/'' @ Join es)"

declare Join.simps [simp del]

text \<open>\<open>os.Open\<close> followed by \<open>image.Decode\<close>, as the export loop uses them.\<close>

definition osOpen :: "world \<Rightarrow> string \<Rightarrow> content option" where
  "osOpen w path = (if readFails w path then None else files w path)"

definition imageDecode :: "content \<Rightarrow> image option" where
  "imageDecode f = (case f of Raster img \<Rightarrow> Some img | _ \<Rightarrow> None)"

text \<open>
  The PNG codec is taken to be lossless: the file written by \<open>png.Encode\<close> for an
  \<open>*image.RGBA\<close> decodes to the same pixels, in a rectangle that starts at the origin (the
  format does not record where the rectangle of the encoded image started).
\<close>

definition pngOf :: "rgba \<Rightarrow> image" where
  "pngOf m =
     rgbaImage \<lparr>rect = \<lparr>rmin = Pt 0 0, rmax = Size (rect m)\<rparr>,
               pix = (\<lambda>x y. pix m (iadd x (px (rmin (rect m)))) (iadd y (py (rmin (rect m)))))\<rparr>"

section \<open>The replies of the handlers\<close>

datatype reply =
  OkJson
| OkPng rgba
| BadRequest string
| MethodNotAllowed string
| InternalServerError string
| Panic

section \<open>exportPuzzleHandler\<close>

record ExportPayload =
  folder :: string
  placements :: "string \<rightharpoonup> string"

text \<open>
  A request: its method and the payload decoded from its body, \<open>None\<close> when the body is
  not the JSON of a payload.
\<close>

record ExportRequest =
  exportMethod :: string
  exportBody :: "ExportPayload option"

text \<open>
  A \<open>range\<close> over a Go map visits every entry once, in an order that the language leaves
  open.  An order is a list of the entries.
\<close>

definition visits :: "(string \<times> string) list \<Rightarrow> (string \<rightharpoonup> string) \<Rightarrow> bool" where
  "visits order m \<longleftrightarrow> distinct (map fst order) \<and> map_of order = m"

text \<open>The first loop: \<open>maxRow\<close> and \<open>maxCol\<close>, both 0 at the start.\<close>

fun maxLoop :: "(string \<times> string) list \<Rightarrow> int \<times> int \<Rightarrow> int \<times> int" where
  "maxLoop [] (maxRow, maxCol) = (maxRow, maxCol)"
| "maxLoop ((pos, filename) # rest) (maxRow, maxCol) =
     (case Sscanf_pos pos of (r, c) \<Rightarrow>
        maxLoop rest (if r > maxRow then r else maxRow, if c > maxCol then c else maxCol))"

text \<open>The body of the second loop for one entry; a tile that does not open or decode is skipped.\<close>

definition paintTile :: "world \<Rightarrow> string \<Rightarrow> rgba \<Rightarrow> string \<times> string \<Rightarrow> rgba" where
  "paintTile w basePath dst entry =
     (case entry of (pos, filename) \<Rightarrow>
      case Sscanf_pos pos of (r, c) \<Rightarrow>
      case osOpen w (Join [basePath, ''pieces'', filename]) of
        None \<Rightarrow> dst
      | Some tileFile \<Rightarrow>
          (case imageDecode tileFile of
             None \<Rightarrow> dst
           | Some img \<Rightarrow>
               let pt = Pt (imul c tileSize) (imul r tileSize)
               in drawDraw dst \<lparr>rmin = pt, rmax = AddP pt (Size (bounds img))\<rparr> img (Pt 0 0) Over))"

fun paintLoop :: "world \<Rightarrow> string \<Rightarrow> (string \<times> string) list \<Rightarrow> rgba \<Rightarrow> rgba" where
  "paintLoop w basePath [] dst = dst"
| "paintLoop w basePath (entry # rest) dst = paintLoop w basePath rest (paintTile w basePath dst entry)"

text \<open>
  The handler, with the orders in which its two loops visit the placements.  The PNG
  written to the response is represented by the canvas it encodes.
\<close>

definition exportPuzzleHandler ::
  "world \<Rightarrow> ExportRequest \<Rightarrow> (string \<times> string) list \<Rightarrow> (string \<times> string) list \<Rightarrow> reply" where
  "exportPuzzleHandler w req order1 order2 =
     (if exportMethod req \<noteq> ''POST'' then MethodNotAllowed ''POST required''
      else case exportBody req of
        None \<Rightarrow> BadRequest ''Invalid JSON: ''
      | Some payload \<Rightarrow>
          let basePath = Join [''images'', folder payload] in
          case maxLoop order1 (0, 0) of (maxRow, maxCol) \<Rightarrow>
          let canvasW = imul (iadd maxCol 1) tileSize;
              canvasH = imul (iadd maxRow 1) tileSize
          in case NewRGBA (Rect 0 0 canvasW canvasH) of
               None \<Rightarrow> Panic
             | Some dst \<Rightarrow> OkPng (paintLoop w basePath order2 dst))"

text \<open>The rows and the columns that the keys of a placement map scan to.\<close>

definition keyRows :: "(string \<rightharpoonup> string) \<Rightarrow> int set" where
  "keyRows m = (\<lambda>pos. fst (Sscanf_pos pos)) ` dom m"

definition keyCols :: "(string \<rightharpoonup> string) \<Rightarrow> int set" where
  "keyCols m = (\<lambda>pos. snd (Sscanf_pos pos)) ` dom m"

text \<open>The request that posts a payload.\<close>

definition exportPost :: "string \<Rightarrow> (string \<rightharpoonup> string) \<Rightarrow> ExportRequest" where
  "exportPost f m = \<lparr>exportMethod = ''POST'', exportBody = Some \<lparr>folder = f, placements = m\<rparr>\<rparr>"



text \<open>
  The tile that the second loop loads for a file name, and, for an entry, the pixels of a
  canvas with the rectangle \<open>canvas\<close> that \<open>draw.Draw\<close> combines with a pixel of its
  tile, together with the colour of that pixel of the tile.
\<close>

definition loadTile :: "world \<Rightarrow> string \<Rightarrow> string \<Rightarrow> image option" where
  "loadTile w basePath filename =
     (case osOpen w (Join [basePath, ''pieces'', filename]) of
        None \<Rightarrow> None
      | Some tileFile \<Rightarrow> imageDecode tileFile)"

definition tileCorner :: "string \<Rightarrow> point" where
  "tileCorner pos = Pt (imul (snd (Sscanf_pos pos)) tileSize) (imul (fst (Sscanf_pos pos)) tileSize)"

definition paintsAt :: "world \<Rightarrow> string \<Rightarrow> rectangle \<Rightarrow> string \<times> string \<Rightarrow> int \<Rightarrow> int \<Rightarrow> bool" where
  "paintsAt w basePath canvas entry x y =
     (case loadTile w basePath (snd entry) of
        None \<Rightarrow> False
      | Some img \<Rightarrow>
          In (Pt x y) \<lparr>rmin = tileCorner (fst entry),
                       rmax = AddP (tileCorner (fst entry)) (Size (bounds img))\<rparr> \<and>
          In (Pt x y) canvas \<and>
          In (Pt x y) (AddR (bounds img) (SubP (tileCorner (fst entry)) (Pt 0 0))))"

definition paintColor :: "world \<Rightarrow> string \<Rightarrow> string \<times> string \<Rightarrow> int \<Rightarrow> int \<Rightarrow> color16" where
  "paintColor w basePath entry x y =
     (case loadTile w basePath (snd entry) of
        None \<Rightarrow> (0, 0, 0, 0)
      | Some img \<Rightarrow>
          colorAt img (iadd (isub x (px (tileCorner (fst entry)))) 0)
                      (iadd (isub y (py (tileCorner (fst entry)))) 0))"

text \<open>
  A tile fits a cell when its rectangle starts at the origin, as the decoders of the
  standard library have it, and is at most \<open>tileSize\<close> wide and high.
\<close>

definition fitsCell :: "image \<Rightarrow> bool" where
  "fitsCell img \<longleftrightarrow>
     rmin (bounds img) = Pt 0 0 \<and>
     0 \<le> px (rmax (bounds img)) \<and> px (rmax (bounds img)) \<le> tileSize \<and>
     0 \<le> py (rmax (bounds img)) \<and> py (rmax (bounds img)) \<le> tileSize"


section \<open>Floating point: float64\<close>

text \<open>
  A \<open>float64\<close> is a rational with 53 significant bits, an infinity or a NaN.  The
  numbers of the handler are quotients of integers of 64 bits, far inside the range of
  exponents, so that rounding is to the nearest value with 53 significant bits, ties to
  the even one, and neither overflow nor underflow occurs.  The sign of a zero is not
  kept: it does not reach the conversion to \<open>int\<close>.
\<close>

datatype float64 = Fin rat | PInf | NInf | NaN

fun bitlen :: "nat \<Rightarrow> nat" where
  "bitlen n = (if n = 0 then 0 else Suc (bitlen (n div 2)))"

definition pow2 :: "int \<Rightarrow> rat" where
  "pow2 e = (if 0 \<le> e then 2 ^ nat e else 1 / 2 ^ nat (- e))"

text \<open>The exponent \<open>e\<close> with \<open>2^e \<le> q < 2^(e+1)\<close>, for \<open>q > 0\<close>.\<close>

definition ilog2 :: "rat \<Rightarrow> int" where
  "ilog2 q =
     (case quotient_of q of (a, b) \<Rightarrow>
        let e0 = int (bitlen (nat a)) - int (bitlen (nat b))
        in if q < pow2 e0 then e0 - 1 else e0)"

definition roundEven :: "rat \<Rightarrow> int" where
  "roundEven m =
     (let f = \<lfloor>m\<rfloor>; d = m - of_int f
      in if d < 1 / 2 then f else if 1 / 2 < d then f + 1 else if even f then f else f + 1)"

definition round64 :: "rat \<Rightarrow> rat" where
  "round64 q =
     (if q = 0 then 0
      else let e = ilog2 \<bar>q\<bar> in sgn q * of_int (roundEven (\<bar>q\<bar> / pow2 (e - 52))) * pow2 (e - 52))"

text \<open>The conversion \<open>float64(n)\<close> of an \<open>int\<close>.\<close>

definition float64_of_int :: "int \<Rightarrow> float64" where
  "float64_of_int n = Fin (round64 (of_int n))"

text \<open>The quotient \<open>x / y\<close> of IEEE 754.\<close>

fun fdiv :: "float64 \<Rightarrow> float64 \<Rightarrow> float64" where
  "fdiv (Fin x) (Fin y) =
     (if y = 0 then (if x = 0 then NaN else if 0 < x then PInf else NInf)
      else Fin (round64 (x / y)))"
| "fdiv (Fin x) PInf = Fin 0"
| "fdiv (Fin x) NInf = Fin 0"
| "fdiv PInf (Fin y) = (if 0 \<le> y then PInf else NInf)"
| "fdiv NInf (Fin y) = (if 0 \<le> y then NInf else PInf)"
| "fdiv _ _ = NaN"

text \<open>
  The conversion \<open>int(f)\<close>: the fraction is dropped (toward zero).  For a value that no
  \<open>int\<close> represents, Go leaves the result to the implementation: \<open>huge\<close>.
\<close>

definition truncate :: "rat \<Rightarrow> int" where
  "truncate q = (if 0 \<le> q then \<lfloor>q\<rfloor> else \<lceil>q\<rceil>)"

fun int_of_float64 :: "int \<Rightarrow> float64 \<Rightarrow> int" where
  "int_of_float64 huge (Fin q) =
     (if - (2 ^ 63) \<le> truncate q \<and> truncate q < 2 ^ 63 then truncate q else huge)"
| "int_of_float64 huge _ = huge"


section \<open>uploadPuzzleHandler\<close>

text \<open>
  \<open>strconv.Atoi\<close>: an optional sign and decimal digits, nothing else, and a value in
  the range of \<open>int\<close>.
\<close>

definition Atoi :: "string \<Rightarrow> int option" where
  "Atoi s =
     (let neg = (s \<noteq> [] \<and> hd s = CHR ''-'');
          s' = (if s \<noteq> [] \<and> (hd s = CHR ''+'' \<or> hd s = CHR ''-'') then tl s else s);
          v = (if neg then - int (decimal s') else int (decimal s'))
      in if s' = [] \<or> \<not> list_all isDigit s' then None
         else if v < - (2 ^ 63) \<or> 2 ^ 63 \<le> v then None
         else Some v)"

text \<open>
  \<open>toSnakeCase\<close>, on the bytes of the name: an upper-case letter becomes an underscore
  (unless it comes first) and the lower-case letter, a space or a hyphen becomes an
  underscore.  Letters outside ASCII, which \<open>unicode.IsUpper\<close> also knows, are kept as
  they are.
\<close>

definition isUpper :: "char \<Rightarrow> bool" where
  "isUpper c \<longleftrightarrow> 65 \<le> (of_char c :: nat) \<and> (of_char c :: nat) \<le> 90"

definition toLower :: "char \<Rightarrow> char" where
  "toLower c = (if isUpper c then char_of (of_char c + (32 :: nat)) else c)"

fun snakeLoop :: "nat \<Rightarrow> string \<Rightarrow> string" where
  "snakeLoop i [] = []"
| "snakeLoop i (r # rest) =
     (if isUpper r then (if i > 0 then ''_'' else []) @ [toLower r] @ snakeLoop (Suc i) rest
      else if r = CHR '' '' \<or> r = CHR ''-'' then ''_'' @ snakeLoop (Suc i) rest
      else r # snakeLoop (Suc i) rest)"

definition toSnakeCase :: "string \<Rightarrow> string" where
  "toSnakeCase s = snakeLoop 0 s"

text \<open>
  The target size of the resized image: \<open>targetWidth := tileSize * columns\<close>,
  \<open>aspectRatio := float64(originalWidth) / float64(originalHeight)\<close> and
  \<open>targetHeight := int(float64(targetWidth) / aspectRatio)\<close>.
\<close>

definition targetWidth :: "int \<Rightarrow> int" where
  "targetWidth columns = imul tileSize columns"

definition aspectRatio :: "int \<Rightarrow> int \<Rightarrow> float64" where
  "aspectRatio originalWidth originalHeight =
     fdiv (float64_of_int originalWidth) (float64_of_int originalHeight)"

definition targetHeight :: "int \<Rightarrow> int \<Rightarrow> int \<Rightarrow> int \<Rightarrow> int" where
  "targetHeight huge columns originalWidth originalHeight =
     int_of_float64 huge
       (fdiv (float64_of_int (targetWidth columns)) (aspectRatio originalWidth originalHeight))"

text \<open>The conversion \<open>uint(n)\<close> of an \<open>int\<close>.\<close>

definition uint :: "int \<Rightarrow> nat" where
  "uint n = nat (n mod 2 ^ 64)"

text \<open>The request: the method and the fields of the multipart form.\<close>

record UploadRequest =
  uploadMethod :: string
  formFails :: bool
  formName :: string
  formColumns :: string
  formImage :: "content option"

text \<open>What the slicing loop builds: the files, the pieces and the solution.\<close>

record slicing =
  disk :: "string \<rightharpoonup> content"
  pieces :: "string list"
  solution :: "string \<rightharpoonup> string"

text \<open>A request that ends early: the reply and the files as they are then.\<close>

type_synonym failure = "reply \<times> (string \<rightharpoonup> content)"

text \<open>
  The file after \<open>os.Create\<close> and \<open>png.Encode\<close>.  The encoder refuses an image without
  pixels or with a side of \<open>2^32\<close> or more and leaves the new file empty; a write that
  fails leaves a broken file.
\<close>

definition pngEncode :: "world \<Rightarrow> string \<Rightarrow> rgba \<Rightarrow> content" where
  "pngEncode w path m =
     (if Dx (rect m) \<le> 0 \<or> Dy (rect m) \<le> 0 \<or> 2 ^ 32 \<le> Dx (rect m) \<or> 2 ^ 32 \<le> Dy (rect m)
      then Blank
      else if writeFails w path then Broken
      else Raster (pngOf m))"

text \<open>
  The body of the slicing loop for the cell \<open>(r, c)\<close>.  The error of \<open>os.Create\<close> ends
  the request; the errors of \<open>png.Encode\<close> and \<open>Close\<close> are not looked at.
\<close>

definition sliceTile ::
  "world \<Rightarrow> string \<Rightarrow> image \<Rightarrow> int \<Rightarrow> int \<Rightarrow> slicing \<Rightarrow> failure + slicing" where
  "sliceTile w puzzlePath resizedImg r c st =
     (case NewRGBA (tileRect (bounds resizedImg) r c) of
        None \<Rightarrow> Inl (Panic, disk st)
      | Some blank \<Rightarrow>
          let tileImg = drawDraw blank (tileRect (bounds resizedImg) r c) resizedImg
                          (Pt (imul c tileSize) (imul r tileSize)) Src;
              tileName = ''image_'' @ fmt_04d (int (length (pieces st))) @ ''.png'';
              tilePath = Join [puzzlePath, ''pieces'', tileName]
          in if createFails w tilePath
             then Inl (InternalServerError ''Error creating tile file: '', disk st)
             else Inr \<lparr>disk = (disk st)(tilePath \<mapsto> pngEncode w tilePath tileImg),
                       pieces = pieces st @ [tileName],
                       solution = (solution st)(fmt_d r @ '','' @ fmt_d c \<mapsto> tileName)\<rparr>)"

function colLoop ::
  "world \<Rightarrow> string \<Rightarrow> image \<Rightarrow> int \<Rightarrow> int \<Rightarrow> int \<Rightarrow> slicing \<Rightarrow> failure + slicing" where
  "colLoop w puzzlePath resizedImg cols r c st =
     (if c < cols then
        (case sliceTile w puzzlePath resizedImg r c st of
           Inl e \<Rightarrow> Inl e
         | Inr st' \<Rightarrow> colLoop w puzzlePath resizedImg cols r (c + 1) st')
      else Inr st)"
  by pat_completeness auto
termination
  by (relation "measure (\<lambda>(w, puzzlePath, resizedImg, cols, r, c, st). nat (cols - c))") auto

function rowLoop ::
  "world \<Rightarrow> string \<Rightarrow> image \<Rightarrow> int \<Rightarrow> int \<Rightarrow> int \<Rightarrow> slicing \<Rightarrow> failure + slicing" where
  "rowLoop w puzzlePath resizedImg rows cols r st =
     (if r < rows then
        (case colLoop w puzzlePath resizedImg cols r 0 st of
           Inl e \<Rightarrow> Inl e
         | Inr st' \<Rightarrow> rowLoop w puzzlePath resizedImg rows cols (r + 1) st')
      else Inr st)"
  by pat_completeness auto
termination
  by (relation "measure (\<lambda>(w, puzzlePath, resizedImg, rows, cols, r, st). nat (rows - r))") auto

text \<open>
  Reading the catalog: a missing file is an empty catalog, as is a file of length 0; any
  other failure to read, and bytes that are not JSON, end the request.  A JSON document of
  another shape unmarshals without an error and without entries.
\<close>

definition readIndex :: "world \<Rightarrow> (string \<rightharpoonup> content) \<Rightarrow> string \<Rightarrow> failure + IndexEntry list" where
  "readIndex w fs path =
     (case fs path of
        None \<Rightarrow> Inr []
      | Some f \<Rightarrow>
          if readFails w path then Inl (InternalServerError ''Error reading imageIndex.json: '', fs)
          else (case f of
                  IndexJson entries \<Rightarrow> Inr entries
                | ManifestJson m \<Rightarrow> Inr []
                | Blank \<Rightarrow> Inr []
                | _ \<Rightarrow> Inl (InternalServerError ''Error parsing imageIndex.json: '', fs)))"

text \<open>
  The handler.  It returns the reply and the files as it leaves them.  \<open>huge\<close> is the
  value of the conversion \<open>int(f)\<close> where Go leaves it open.
\<close>

definition uploadPuzzleHandler ::
  "libs \<Rightarrow> int \<Rightarrow> world \<Rightarrow> UploadRequest \<Rightarrow> reply \<times> (string \<rightharpoonup> content)" where
  "uploadPuzzleHandler lib huge w req =
     (if uploadMethod req \<noteq> ''POST'' then (MethodNotAllowed ''POST required'', files w)
      else if formFails req then (BadRequest ''Error parsing multipart form: '', files w)
      else if formName req = [] then (BadRequest ''Puzzle name is required'', files w)
      else case Atoi (formColumns req) of
        None \<Rightarrow> (BadRequest ''Invalid number of columns'', files w)
      | Some columns \<Rightarrow>
      if columns \<le> 0 then (BadRequest ''Invalid number of columns'', files w)
      else case formImage req of
        None \<Rightarrow> (BadRequest ''Error retrieving the file: '', files w)
      | Some file \<Rightarrow>
      case imageDecode file of
        None \<Rightarrow> (BadRequest ''Error decoding image: '', files w)
      | Some img \<Rightarrow>
      let originalWidth = Dx (bounds img);
          originalHeight = Dy (bounds img);
          resizedImg = Resize lib (uint (targetWidth columns))
                         (uint (targetHeight huge columns originalWidth originalHeight)) img;
          puzzleDirName = toSnakeCase (formName req);
          puzzlePath = Join [''images'', puzzleDirName]
      in
      if mkdirFails w (Join [puzzlePath, ''pieces''])
      then (InternalServerError ''Error creating puzzle directory: '', files w)
      else
      let indexPath = Join [puzzlePath, ''index.jpg''] in
      if createFails w indexPath
      then (InternalServerError ''Error creating index.jpg: '', files w)
      else if writeFails w indexPath
      then (InternalServerError ''Error saving index.jpg: '', (files w)(indexPath \<mapsto> Broken))
      else
      let fs1 = (files w)(indexPath \<mapsto> Raster (jpegOf lib resizedImg));
          cols = gridCols (bounds resizedImg);
          rows = gridRows (bounds resizedImg)
      in
      case rowLoop w puzzlePath resizedImg rows cols 0 \<lparr>disk = fs1, pieces = [], solution = Map.empty\<rparr> of
        Inl e \<Rightarrow> e
      | Inr st \<Rightarrow>
      let manifest = \<lparr>Pieces = pieces st, Solution = solution st\<rparr>;
          manifestPath = Join [puzzlePath, ''manifest.json'']
      in
      if createFails w manifestPath
      then (InternalServerError ''Error creating manifest.json: '', disk st)
      else
      let fs2 = (disk st)(manifestPath \<mapsto>
                   (if writeFails w manifestPath then Broken else ManifestJson manifest));
          imageIndexPath = Join [''images'', ''imageIndex.json'']
      in
      case readIndex w fs2 imageIndexPath of
        Inl e \<Rightarrow> e
      | Inr images \<Rightarrow>
      let newImage = \<lparr>Name = formName req, Folder = puzzleDirName, Rows = rows, Cols = cols,
                       Tl = ''image_0000.png''\<rparr>
      in
      if createFails w imageIndexPath
      then (InternalServerError ''Error writing imageIndex.json: '', fs2)
      else if writeFails w imageIndexPath
      then (InternalServerError ''Error writing imageIndex.json: '', fs2(imageIndexPath \<mapsto> Broken))
      else (OkJson, fs2(imageIndexPath \<mapsto> IndexJson (images @ [newImage]))))"


section \<open>Sample inputs\<close>

text \<open>
  A tile of one colour, \<open>tileSize\<close> pixels wide and high, two opaque colours, and a file
  system without failures that holds two such tiles for the puzzle \<open>demo\<close>.
\<close>

definition solidTile :: "color16 \<Rightarrow> image" where
  "solidTile col = \<lparr>bounds = \<lparr>rmin = Pt 0 0, rmax = Pt 512 512\<rparr>, colorAt = (\<lambda>x y. col)\<rparr>"

definition red :: color16 where
  "red = (0xFFFF, 0, 0, 0xFFFF)"

definition blue :: color16 where
  "blue = (0, 0, 0xFFFF, 0xFFFF)"

definition never :: "string \<Rightarrow> bool" where
  "never path = False"

definition twoTiles :: "string \<rightharpoonup> content" where
  "twoTiles = [''images/demo/pieces/a.png'' \<mapsto> Raster (solidTile red),
               ''images/demo/pieces/b.png'' \<mapsto> Raster (solidTile blue)]"

definition demoWorld :: world where
  "demoWorld = \<lparr>files = twoTiles, mkdirFails = never, createFails = never,
                 writeFails = never, readFails = never\<rparr>"


definition blankCanvas :: "int \<Rightarrow> int \<Rightarrow> rgba" where
  "blankCanvas cw ch = \<lparr>rect = \<lparr>rmin = Pt 0 0, rmax = Pt cw ch\<rparr>, pix = (\<lambda>x y. transparent)\<rparr>"

definition twoOrder :: "(string \<times> string) list" where
  "twoOrder = [(''0,0'', ''a.png''), (''1,2'', ''b.png'')]"

definition twoPlacements :: "string \<rightharpoonup> string" where
  "twoPlacements = map_of twoOrder"



definition clashOrder :: "(string \<times> string) list" where
  "clashOrder = [(''0,0'', ''a.png''), (''00,0'', ''b.png'')]"

definition clashPlacements :: "string \<rightharpoonup> string" where
  "clashPlacements = map_of clashOrder"





section \<open>Arithmetic without wrap-around\<close>

lemma wrap64_id: "- (2 ^ 63) \<le> x \<Longrightarrow> x < 2 ^ 63 \<Longrightarrow> wrap64 x = x"
  by (simp add: wrap64_def)
















section \<open>Scanning keys and painting tiles\<close>

lemma wrap64_wrap64 [simp]: "wrap64 (wrap64 x) = wrap64 x"
  by (simp add: wrap64_def)

lemma wrap64_range: "- (2 ^ 63) \<le> wrap64 x" "wrap64 x < 2 ^ 63"
  by (simp_all add: wrap64_def)

lemma maxLoop_fold:
  "maxLoop order (maxRow, maxCol) =
     (Max (insert maxRow ((\<lambda>e. fst (Sscanf_pos (fst e))) ` set order)),
      Max (insert maxCol ((\<lambda>e. snd (Sscanf_pos (fst e))) ` set order)))"
proof (induction order arbitrary: maxRow maxCol)
  case Nil
  then show ?case by simp
next
  case (Cons e order)
  obtain pos filename where e: "e = (pos, filename)" by (cases e)
  obtain r c where rc: "Sscanf_pos pos = (r, c)" by (cases "Sscanf_pos pos")
  let ?R = "(\<lambda>e. fst (Sscanf_pos (fst e))) ` set order"
  let ?C = "(\<lambda>e. snd (Sscanf_pos (fst e))) ` set order"
  have fin: "finite ?R" "finite ?C" by simp_all
  have R: "Max (insert (if r > maxRow then r else maxRow) ?R) = Max (insert maxRow (insert r ?R))"
    using fin(1) by (cases "?R = {}") (auto simp: max_def)
  have C: "Max (insert (if c > maxCol then c else maxCol) ?C) = Max (insert maxCol (insert c ?C))"
    using fin(2) by (cases "?C = {}") (auto simp: max_def)
  show ?case
    by (simp add: e rc Cons.IH R C)
qed

lemma In_ZR [simp]: "\<not> In p ZR"
  by (simp add: In_def ZR_def Pt_def)

lemma if_max_int: "(if a < b then b else a) = max a (b::int)"
  by (simp add: max_def)

lemma if_min_int: "(if a > b then b else a) = min a (b::int)"
  by (simp add: min_def)

lemma In_Intersect: "In p (Intersect r s) \<longleftrightarrow> In p r \<and> In p s"
proof -
  define q where "q = \<lparr>rmin = Pt (max (px (rmin r)) (px (rmin s))) (max (py (rmin r)) (py (rmin s))),
                        rmax = Pt (min (px (rmax r)) (px (rmax s))) (min (py (rmax r)) (py (rmax s)))\<rparr>"
  have i: "Intersect r s = (if Empty q then ZR else q)"
    by (simp only: Intersect_def Let_def q_def if_max_int if_min_int)
  have q: "In p q \<longleftrightarrow> In p r \<and> In p s"
    unfolding In_def q_def Pt_def by (simp; blast)
  have e: "Empty q \<Longrightarrow> \<not> In p q"
    unfolding In_def Empty_def by linarith
  show ?thesis
  proof (cases "Empty q")
    case True
    then show ?thesis using q e by (simp add: i)
  next
    case False
    then show ?thesis using q by (simp add: i)
  qed
qed
lemma rect_drawDraw [simp]: "rect (drawDraw dst r src sp op) = rect dst"
  by (simp add: drawDraw_def Let_def)

lemma pix_drawDraw:
  "pix (drawDraw dst r src sp op) x y =
     (if In (Pt x y) r \<and> In (Pt x y) (rect dst) \<and> In (Pt x y) (AddR (bounds src) (SubP (rmin r) sp))
      then blend op (pix dst x y)
             (colorAt src (iadd (isub x (px (rmin r))) (px sp)) (iadd (isub y (py (rmin r))) (py sp)))
      else pix dst x y)"
  by (simp add: drawDraw_def Let_def In_Intersect)

lemma rect_paintTile [simp]: "rect (paintTile w basePath dst entry) = rect dst"
  by (simp add: paintTile_def Let_def split: prod.splits option.splits)

lemma rect_paintLoop [simp]: "rect (paintLoop w basePath order dst) = rect dst"
  by (induction order arbitrary: dst) simp_all

lemma paintTile_unfold:
  "paintTile w basePath dst (pos, filename) =
     (case osOpen w (Join [basePath, ''pieces'', filename]) of
        None \<Rightarrow> dst
      | Some tileFile \<Rightarrow>
          (case imageDecode tileFile of
             None \<Rightarrow> dst
           | Some img \<Rightarrow>
               drawDraw dst
                 \<lparr>rmin = Pt (imul (snd (Sscanf_pos pos)) tileSize) (imul (fst (Sscanf_pos pos)) tileSize),
                  rmax = AddP (Pt (imul (snd (Sscanf_pos pos)) tileSize) (imul (fst (Sscanf_pos pos)) tileSize))
                           (Size (bounds img))\<rparr> img (Pt 0 0) Over))"
  by (simp add: paintTile_def Let_def split: prod.splits option.splits)




lemma visits_keys: "visits order m \<Longrightarrow> fst ` set order = dom m"
  by (auto simp: visits_def dom_map_of_conv_image_fst intro: rev_image_eqI)

lemma visits_rows:
  assumes "visits order m"
  shows "(\<lambda>e. fst (Sscanf_pos (fst e))) ` set order = keyRows m"
    and "(\<lambda>e. snd (Sscanf_pos (fst e))) ` set order = keyCols m"
proof -
  have "(\<lambda>e. fst (Sscanf_pos (fst e))) ` set order = (\<lambda>pos. fst (Sscanf_pos pos)) ` fst ` set order"
    by (simp add: image_image)
  then show "(\<lambda>e. fst (Sscanf_pos (fst e))) ` set order = keyRows m"
    by (simp add: keyRows_def visits_keys [OF assms])
  have "(\<lambda>e. snd (Sscanf_pos (fst e))) ` set order = (\<lambda>pos. snd (Sscanf_pos pos)) ` fst ` set order"
    by (simp add: image_image)
  then show "(\<lambda>e. snd (Sscanf_pos (fst e))) ` set order = keyCols m"
    by (simp add: keyCols_def visits_keys [OF assms])
qed

lemma finite_keys: "visits order m \<Longrightarrow> finite (keyRows m) \<and> finite (keyCols m)"
  using visits_rows [of order m] by (metis finite_imageI finite_set)

lemma Max_insert0_bounds:
  fixes S :: "int set"
  assumes "finite S" "\<forall>k\<in>S. k < b" "0 < b"
  shows "0 \<le> Max (insert 0 S)" "Max (insert 0 S) < b"
  using assms by auto

lemma NewRGBA_canvas:
  assumes "0 \<le> cw" "cw \<le> 2 ^ 30" "0 \<le> ch" "ch \<le> 2 ^ 30"
  shows "NewRGBA (Rect 0 0 cw ch) =
           Some \<lparr>rect = \<lparr>rmin = Pt 0 0, rmax = Pt cw ch\<rparr>, pix = (\<lambda>x y. transparent)\<rparr>"
proof -
  have r: "Rect 0 0 cw ch = \<lparr>rmin = Pt 0 0, rmax = Pt cw ch\<rparr>"
    using assms by (simp add: Rect_def)
  have d: "Dx \<lparr>rmin = Pt 0 0, rmax = Pt cw ch\<rparr> = cw" "Dy \<lparr>rmin = Pt 0 0, rmax = Pt cw ch\<rparr> = ch"
    using assms by (simp_all add: Dx_def Dy_def Pt_def isub_def wrap64_id)
  have "cw * ch \<le> 2 ^ 30 * 2 ^ 30" using assms by (intro mult_mono) simp_all
  also have "(2::int) ^ 30 * 2 ^ 30 = 1152921504606846976" by simp
  finally have "cw * ch \<le> 1152921504606846976" .
  moreover have "(2::int) ^ 63 = 9223372036854775808" by simp
  ultimately have "4 * (cw * ch) < 2 ^ 63" by linarith
  then have "4 * cw * ch < 2 ^ 63" by (simp add: mult.assoc)
  moreover have "0 \<le> 4 * cw * ch" using assms by simp
  moreover have "4 * cw < 2 ^ 64" using assms by simp
  ultimately have "mul3NonNeg 4 cw ch = 4 * cw * ch" "0 \<le> 4 * cw * ch"
    using assms by (simp_all add: mul3NonNeg_def)
  then show ?thesis by (simp add: NewRGBA_def r d)
qed

lemma export_reply:
  assumes v1: "visits order1 m"
    and small: "\<forall>pos\<in>dom m. fst (Sscanf_pos pos) < 2 ^ 21 \<and> snd (Sscanf_pos pos) < 2 ^ 21"
  shows "exportPuzzleHandler w (exportPost f m) order1 order2 =
           OkPng (paintLoop w (Join [''images'', f]) order2
             \<lparr>rect = \<lparr>rmin = Pt 0 0,
                       rmax = Pt ((Max (insert 0 (keyCols m)) + 1) * tileSize)
                                 ((Max (insert 0 (keyRows m)) + 1) * tileSize)\<rparr>,
              pix = (\<lambda>x y. transparent)\<rparr>)"
proof -
  let ?mr = "Max (insert 0 (keyRows m))" and ?mc = "Max (insert 0 (keyCols m))"
  have ml: "maxLoop order1 (0, 0) = (?mr, ?mc)"
    by (simp add: maxLoop_fold visits_rows [OF v1])
  have fin: "finite (keyRows m)" "finite (keyCols m)" using finite_keys [OF v1] by simp_all
  have "\<forall>k\<in>keyRows m. k < 2 ^ 21" "\<forall>k\<in>keyCols m. k < 2 ^ 21"
    using small by (auto simp: keyRows_def keyCols_def)
  then have mr: "0 \<le> ?mr" "?mr < 2 ^ 21" and mc: "0 \<le> ?mc" "?mc < 2 ^ 21"
    using fin by (simp_all add: Max_insert0_bounds)
  have cw: "imul (iadd ?mc 1) tileSize = (?mc + 1) * tileSize"
    using mc by (simp add: imul_def iadd_def tileSize_def wrap64_id)
  have ch: "imul (iadd ?mr 1) tileSize = (?mr + 1) * tileSize"
    using mr by (simp add: imul_def iadd_def tileSize_def wrap64_id)
  have n: "NewRGBA (Rect 0 0 ((?mc + 1) * tileSize) ((?mr + 1) * tileSize)) =
             Some \<lparr>rect = \<lparr>rmin = Pt 0 0, rmax = Pt ((?mc + 1) * tileSize) ((?mr + 1) * tileSize)\<rparr>,
                   pix = (\<lambda>x y. transparent)\<rparr>"
    using mr mc by (intro NewRGBA_canvas) (simp_all add: tileSize_def)
  show ?thesis
    by (simp add: exportPuzzleHandler_def exportPost_def Let_def ml cw ch n)
qed


section \<open>The canvas of the composer\<close>


lemma Sscanf_pos_samples:
  "Sscanf_pos ''0,0'' = (0, 0)" "Sscanf_pos ''1,2'' = (1, 2)"
  "Sscanf_pos ''foo'' = (0, 0)" "Sscanf_pos ''3,foo'' = (3, 0)"
  by (simp_all add: Sscanf_pos_def scanInt_def SkipSpace.simps isDigit_def decimal_def digitVal_def space3_def)



section \<open>Keys that do not scan\<close>


lemma imul_zero [simp]: "imul 0 k = 0"
  by (simp add: imul_def wrap64_def)





section \<open>The pixels of the composite\<close>

lemma pix_paintTile:
  "pix (paintTile w basePath dst entry) x y =
     (if paintsAt w basePath (rect dst) entry x y
      then blend Over (pix dst x y) (paintColor w basePath entry x y)
      else pix dst x y)"
proof -
  obtain pos filename where e: "entry = (pos, filename)" by (cases entry)
  show ?thesis
    unfolding e paintTile_unfold
    by (simp add: paintsAt_def paintColor_def loadTile_def tileCorner_def pix_drawDraw Pt_def
        split: option.splits)
qed

lemma paintLoop_untouched:
  "\<forall>e\<in>set order. \<not> paintsAt w basePath (rect dst) e x y \<Longrightarrow>
   pix (paintLoop w basePath order dst) x y = pix dst x y"
  by (induction order arbitrary: dst) (simp_all add: pix_paintTile)

lemma paintLoop_once:
  assumes "distinct order" "e \<in> set order" "paintsAt w basePath (rect dst) e x y"
    and "\<forall>e'\<in>set order. e' \<noteq> e \<longrightarrow> \<not> paintsAt w basePath (rect dst) e' x y"
  shows "pix (paintLoop w basePath order dst) x y =
           blend Over (pix dst x y) (paintColor w basePath e x y)"
  using assms
proof (induction order arbitrary: dst)
  case Nil
  then show ?case by simp
next
  case (Cons a order)
  show ?case
  proof (cases "a = e")
    case True
    then have "e \<notin> set order" using Cons.prems(1) by simp
    then have "\<forall>e'\<in>set order. \<not> paintsAt w basePath (rect (paintTile w basePath dst a)) e' x y"
      using Cons.prems(4) by auto
    then have "pix (paintLoop w basePath order (paintTile w basePath dst a)) x y =
                 pix (paintTile w basePath dst a) x y"
      by (rule paintLoop_untouched)
    then show ?thesis using True Cons.prems(3) by (simp add: pix_paintTile)
  next
    case False
    then have a: "\<not> paintsAt w basePath (rect dst) a x y" using Cons.prems(4) by simp
    have "pix (paintLoop w basePath order (paintTile w basePath dst a)) x y =
            blend Over (pix (paintTile w basePath dst a) x y) (paintColor w basePath e x y)"
      using Cons.prems False by (intro Cons.IH) auto
    then show ?thesis using a by (simp add: pix_paintTile)
  qed
qed

lemma rgba_eqI: "rect a = rect b \<Longrightarrow> (\<And>x y. pix a x y = pix b x y) \<Longrightarrow> (a::rgba) = b"
  by (cases a, cases b) (auto intro!: ext)

lemma paintLoop_order:
  assumes d: "distinct order" "distinct order'" and s: "set order = set order'"
    and one: "\<And>x y e e'. e \<in> set order \<Longrightarrow> e' \<in> set order \<Longrightarrow> e \<noteq> e' \<Longrightarrow>
                \<not> (paintsAt w basePath (rect dst) e x y \<and> paintsAt w basePath (rect dst) e' x y)"
  shows "paintLoop w basePath order dst = paintLoop w basePath order' dst"
proof (rule rgba_eqI)
  show "rect (paintLoop w basePath order dst) = rect (paintLoop w basePath order' dst)" by simp
next
  fix x y
  show "pix (paintLoop w basePath order dst) x y = pix (paintLoop w basePath order' dst) x y"
  proof (cases "\<exists>e\<in>set order. paintsAt w basePath (rect dst) e x y")
    case True
    then obtain e where e: "e \<in> set order" "paintsAt w basePath (rect dst) e x y" by blast
    have o: "\<forall>e'\<in>set order. e' \<noteq> e \<longrightarrow> \<not> paintsAt w basePath (rect dst) e' x y"
      using one e by blast
    have "pix (paintLoop w basePath order dst) x y =
            blend Over (pix dst x y) (paintColor w basePath e x y)"
      using d(1) e o by (rule paintLoop_once)
    moreover have "pix (paintLoop w basePath order' dst) x y =
            blend Over (pix dst x y) (paintColor w basePath e x y)"
      using d(2) e o unfolding s by (intro paintLoop_once) auto
    ultimately show ?thesis by simp
  next
    case False
    then show ?thesis
      using paintLoop_untouched [of order w basePath dst x y]
        paintLoop_untouched [of order' w basePath dst x y] s by simp
  qed
qed

lemma tileCorner_plain:
  assumes "\<bar>fst (Sscanf_pos pos)\<bar> < 2 ^ 21" "\<bar>snd (Sscanf_pos pos)\<bar> < 2 ^ 21"
  shows "tileCorner pos = Pt (snd (Sscanf_pos pos) * 512) (fst (Sscanf_pos pos) * 512)"
proof -
  have "imul k tileSize = k * 512" if "\<bar>k\<bar> < 2 ^ 21" for k
  proof -
    have "- (2 ^ 21 * 512) < k * 512" "k * 512 < 2 ^ 21 * 512" using that by simp_all
    then show ?thesis by (simp add: imul_def tileSize_def wrap64_id)
  qed
  then show ?thesis using assms by (simp add: tileCorner_def)
qed

lemma paintsAt_cell:
  assumes rc: "\<bar>fst (Sscanf_pos pos)\<bar> < 2 ^ 21" "\<bar>snd (Sscanf_pos pos)\<bar> < 2 ^ 21"
    and l: "loadTile w basePath filename = Some img"
    and f: "fitsCell img"
  shows "paintsAt w basePath canvas (pos, filename) x y \<longleftrightarrow>
           In (Pt x y) canvas \<and>
           snd (Sscanf_pos pos) * 512 \<le> x \<and> x < snd (Sscanf_pos pos) * 512 + px (rmax (bounds img)) \<and>
           fst (Sscanf_pos pos) * 512 \<le> y \<and> y < fst (Sscanf_pos pos) * 512 + py (rmax (bounds img))"
proof -
  let ?r = "fst (Sscanf_pos pos)" and ?c = "snd (Sscanf_pos pos)"
  let ?tw = "px (rmax (bounds img))" and ?th = "py (rmax (bounds img))"
  have t: "0 \<le> ?tw" "?tw \<le> 512" "0 \<le> ?th" "?th \<le> 512" and o: "rmin (bounds img) = Pt 0 0"
    using f by (simp_all add: fitsCell_def tileSize_def)
  have c5: "- (2 ^ 30) < ?c * 512" "?c * 512 < 2 ^ 30" and r5: "- (2 ^ 30) < ?r * 512" "?r * 512 < 2 ^ 30"
    using rc by simp_all
  have sz: "Size (bounds img) = Pt ?tw ?th"
    using t by (simp add: Size_def Dx_def Dy_def o Pt_def isub_def wrap64_id)
  have mx: "AddP (Pt (?c * 512) (?r * 512)) (Pt ?tw ?th) = Pt (?c * 512 + ?tw) (?r * 512 + ?th)"
    using c5 r5 t by (simp add: AddP_def Pt_def iadd_def wrap64_id)
  have sh: "AddR (bounds img) (SubP (Pt (?c * 512) (?r * 512)) (Pt 0 0)) =
              \<lparr>rmin = Pt (?c * 512) (?r * 512), rmax = Pt (?tw + ?c * 512) (?th + ?r * 512)\<rparr>"
    using c5 r5 t by (simp add: AddR_def AddP_def SubP_def o Pt_def iadd_def isub_def wrap64_id)
  have "paintsAt w basePath canvas (pos, filename) x y \<longleftrightarrow>
          In (Pt x y) \<lparr>rmin = Pt (?c * 512) (?r * 512), rmax = Pt (?c * 512 + ?tw) (?r * 512 + ?th)\<rparr> \<and>
          In (Pt x y) canvas \<and>
          In (Pt x y) \<lparr>rmin = Pt (?c * 512) (?r * 512), rmax = Pt (?tw + ?c * 512) (?th + ?r * 512)\<rparr>"
    by (simp add: paintsAt_def l tileCorner_plain [OF rc] sz mx sh)
  also have "\<dots> \<longleftrightarrow> In (Pt x y) canvas \<and> ?c * 512 \<le> x \<and> x < ?c * 512 + ?tw \<and>
           ?r * 512 \<le> y \<and> y < ?r * 512 + ?th"
    by (auto simp: In_def Pt_def)
  finally show ?thesis .
qed

lemma paintsAt_cell_div:
  assumes "\<bar>fst (Sscanf_pos pos)\<bar> < 2 ^ 21" "\<bar>snd (Sscanf_pos pos)\<bar> < 2 ^ 21"
    and "loadTile w basePath filename = Some img" and "fitsCell img"
    and "paintsAt w basePath canvas (pos, filename) x y"
  shows "Sscanf_pos pos = (y div 512, x div 512)"
proof -
  let ?r = "fst (Sscanf_pos pos)" and ?c = "snd (Sscanf_pos pos)"
  have t: "px (rmax (bounds img)) \<le> 512" "py (rmax (bounds img)) \<le> 512"
    using assms(4) by (simp_all add: fitsCell_def tileSize_def)
  have "?c * 512 \<le> x" "x < ?c * 512 + 512" "?r * 512 \<le> y" "y < ?r * 512 + 512"
    using assms(5) t unfolding paintsAt_cell [OF assms(1-4)] by linarith+
  then have "x div 512 = ?c" "y div 512 = ?r" by linarith+
  then show ?thesis by (simp add: prod_eq_iff)
qed

lemma visits_set: "visits order m \<Longrightarrow> set order = {(k, v). m k = Some v}"
  by (auto simp: visits_def)

lemma visits_distinct: "visits order m \<Longrightarrow> distinct order"
  by (simp add: visits_def distinct_map)

section \<open>The order of the placements\<close>

text \<open>
  C5, amended: when different keys scan to different cells (rows and columns within
  \<open>2^21\<close>) and every tile that loads fits a cell, the reply of the composer is the same
  for all orders in which its two loops may visit the placements.
\<close>

theorem export_order_independent:
  assumes "visits order1 m" and "visits order1' m" and "visits order2 m" and "visits order2' m"
    and "\<forall>pos\<in>dom m. \<bar>fst (Sscanf_pos pos)\<bar> < 2 ^ 21 \<and> \<bar>snd (Sscanf_pos pos)\<bar> < 2 ^ 21"
    and "inj_on Sscanf_pos (dom m)"
    and "\<forall>pos filename img. m pos = Some filename \<and>
           loadTile w (Join [''images'', f]) filename = Some img \<longrightarrow> fitsCell img"
  shows "exportPuzzleHandler w (exportPost f m) order1 order2 =
         exportPuzzleHandler w (exportPost f m) order1' order2'"
proof -
  let ?b = "Join [''images'', f]"
  let ?dst = "\<lparr>rect = \<lparr>rmin = Pt 0 0,
                       rmax = Pt ((Max (insert 0 (keyCols m)) + 1) * tileSize)
                                 ((Max (insert 0 (keyRows m)) + 1) * tileSize)\<rparr>,
              pix = (\<lambda>x y. transparent)\<rparr>"
  have small: "\<forall>pos\<in>dom m. fst (Sscanf_pos pos) < 2 ^ 21 \<and> snd (Sscanf_pos pos) < 2 ^ 21"
  proof
    fix pos assume "pos \<in> dom m"
    then have "\<bar>fst (Sscanf_pos pos)\<bar> < 2 ^ 21 \<and> \<bar>snd (Sscanf_pos pos)\<bar> < 2 ^ 21"
      using assms(5) by blast
    then show "fst (Sscanf_pos pos) < 2 ^ 21 \<and> snd (Sscanf_pos pos) < 2 ^ 21" by linarith
  qed
  have one: "\<not> (paintsAt w ?b (rect ?dst) e x y \<and> paintsAt w ?b (rect ?dst) e' x y)"
    if "e \<in> set order2" "e' \<in> set order2" "e \<noteq> e'" for x y e e'
  proof
    assume p: "paintsAt w ?b (rect ?dst) e x y \<and> paintsAt w ?b (rect ?dst) e' x y"
    obtain pos fn where e: "e = (pos, fn)" by (cases e)
    obtain pos' fn' where e': "e' = (pos', fn')" by (cases e')
    have m: "m pos = Some fn" "m pos' = Some fn'"
      using that e e' visits_set [OF assms(3)] by auto
    obtain img where l: "loadTile w ?b fn = Some img"
      using p unfolding e paintsAt_def by (auto split: option.splits)
    obtain img' where l': "loadTile w ?b fn' = Some img'"
      using p unfolding e' paintsAt_def by (auto split: option.splits)
    have f: "fitsCell img" "fitsCell img'" using assms(7) m l l' by blast+
    have "pos \<in> dom m" "pos' \<in> dom m" using m by auto
    then have r: "\<bar>fst (Sscanf_pos pos)\<bar> < 2 ^ 21" "\<bar>snd (Sscanf_pos pos)\<bar> < 2 ^ 21"
      "\<bar>fst (Sscanf_pos pos')\<bar> < 2 ^ 21" "\<bar>snd (Sscanf_pos pos')\<bar> < 2 ^ 21"
      using assms(5) by blast+
    have pp: "paintsAt w ?b (rect ?dst) (pos, fn) x y" "paintsAt w ?b (rect ?dst) (pos', fn') x y"
      using p unfolding e e' by blast+
    have "Sscanf_pos pos = (y div 512, x div 512)"
      by (rule paintsAt_cell_div [OF r(1,2) l f(1) pp(1)])
    moreover have "Sscanf_pos pos' = (y div 512, x div 512)"
      by (rule paintsAt_cell_div [OF r(3,4) l' f(2) pp(2)])
    ultimately have "pos = pos'"
      using assms(6) m by (auto simp: inj_on_def dom_def)
    then show False using m that(3) e e' by simp
  qed
  have "paintLoop w ?b order2 ?dst = paintLoop w ?b order2' ?dst"
  proof (rule paintLoop_order)
    show "distinct order2" "distinct order2'"
      using assms(3,4) by (simp_all add: visits_distinct)
    show "set order2 = set order2'"
      using assms(3,4) by (simp add: visits_set)
    show "\<not> (paintsAt w ?b (rect ?dst) e x y \<and> paintsAt w ?b (rect ?dst) e' x y)"
      if "e \<in> set order2" "e' \<in> set order2" "e \<noteq> e'" for x y e e'
      using that by (rule one)
  qed
  then show ?thesis
    by (simp only: export_reply [OF assms(1) small] export_reply [OF assms(2) small])
qed

lemma demo_tiles:
  "loadTile demoWorld (Join [''images'', ''demo'']) ''a.png'' = Some (solidTile red)"
  "loadTile demoWorld (Join [''images'', ''demo'']) ''b.png'' = Some (solidTile blue)"
  "fitsCell (solidTile col)"
  by (simp_all add: loadTile_def osOpen_def imageDecode_def demoWorld_def never_def twoTiles_def
      Join.simps fitsCell_def solidTile_def tileSize_def Pt_def)

theorem export_order_independent_witness:
  "visits twoOrder twoPlacements \<and> visits (rev twoOrder) twoPlacements \<and>
   inj_on Sscanf_pos (dom twoPlacements) \<and>
   exportPuzzleHandler demoWorld (exportPost ''demo'' twoPlacements) twoOrder twoOrder =
   exportPuzzleHandler demoWorld (exportPost ''demo'' twoPlacements) (rev twoOrder) (rev twoOrder)"
proof -
  have v: "visits twoOrder twoPlacements" "visits (rev twoOrder) twoPlacements"
    by (auto simp: visits_def twoOrder_def twoPlacements_def)
  have d: "dom twoPlacements = {''0,0'', ''1,2''}"
    by (auto simp: twoPlacements_def twoOrder_def)
  have s: "\<forall>pos\<in>dom twoPlacements.
             \<bar>fst (Sscanf_pos pos)\<bar> < 2 ^ 21 \<and> \<bar>snd (Sscanf_pos pos)\<bar> < 2 ^ 21"
    by (simp add: d Sscanf_pos_samples)
  have i: "inj_on Sscanf_pos (dom twoPlacements)"
    by (simp add: d Sscanf_pos_samples)
  have f: "\<forall>pos filename img. twoPlacements pos = Some filename \<and>
             loadTile demoWorld (Join [''images'', ''demo'']) filename = Some img \<longrightarrow> fitsCell img"
    by (auto simp: twoPlacements_def twoOrder_def demo_tiles split: if_splits)
  show ?thesis
    using v i export_order_independent [OF v(1) v(2) v(1) v(2) s i f] by simp
qed

lemma opaque_over: "blend Over d red = (255, 0, 0, 255)" "blend Over d blue = (0, 0, 255, 255)"
  by (cases d; simp add: red_def blue_def overChannel_def)+

theorem clashing_keys_order:
  "visits clashOrder clashPlacements \<and> visits (rev clashOrder) clashPlacements \<and>
   exportPuzzleHandler demoWorld (exportPost ''demo'' clashPlacements) clashOrder clashOrder \<noteq>
   exportPuzzleHandler demoWorld (exportPost ''demo'' clashPlacements) clashOrder (rev clashOrder)"
proof -
  let ?b = "Join [''images'', ''demo'']"
  have v: "visits clashOrder clashPlacements" "visits (rev clashOrder) clashPlacements"
    by (auto simp: visits_def clashOrder_def clashPlacements_def)
  have p: "Sscanf_pos ''00,0'' = (0, 0)"
    by (simp add: Sscanf_pos_def scanInt_def SkipSpace.simps isDigit_def decimal_def digitVal_def space3_def)
  have d: "dom clashPlacements = {''0,0'', ''00,0''}"
    by (auto simp: clashPlacements_def clashOrder_def)
  have s: "\<forall>pos\<in>dom clashPlacements. fst (Sscanf_pos pos) < 2 ^ 21 \<and> snd (Sscanf_pos pos) < 2 ^ 21"
    by (simp add: d Sscanf_pos_samples p)
  have k: "keyCols clashPlacements = {0}" "keyRows clashPlacements = {0}"
    by (simp_all add: keyCols_def keyRows_def d Sscanf_pos_samples p)
  have a: "paintsAt demoWorld ?b \<lparr>rmin = Pt 0 0, rmax = Pt 512 512\<rparr> (''0,0'', ''a.png'') 0 0"
    by (subst paintsAt_cell [OF _ _ demo_tiles(1) demo_tiles(3)])
      (simp_all add: Sscanf_pos_samples In_def Pt_def solidTile_def)
  have b: "paintsAt demoWorld ?b \<lparr>rmin = Pt 0 0, rmax = Pt 512 512\<rparr> (''00,0'', ''b.png'') 0 0"
    by (subst paintsAt_cell [OF _ _ demo_tiles(2) demo_tiles(3)])
      (simp_all add: p In_def Pt_def solidTile_def)
  have ca: "paintColor demoWorld ?b (''0,0'', ''a.png'') 0 0 = red"
    by (simp add: paintColor_def demo_tiles solidTile_def)
  have cb: "paintColor demoWorld ?b (''00,0'', ''b.png'') 0 0 = blue"
    by (simp add: paintColor_def demo_tiles solidTile_def)
  have 1: "pix (paintLoop demoWorld ?b clashOrder (blankCanvas 512 512)) 0 0 = (0, 0, 255, 255)"
    by (simp add: clashOrder_def pix_paintTile blankCanvas_def a b ca cb opaque_over)
  have 2: "pix (paintLoop demoWorld ?b (rev clashOrder) (blankCanvas 512 512)) 0 0 = (255, 0, 0, 255)"
    by (simp add: clashOrder_def pix_paintTile blankCanvas_def a b ca cb opaque_over)
  have "paintLoop demoWorld ?b clashOrder (blankCanvas 512 512) \<noteq>
        paintLoop demoWorld ?b (rev clashOrder) (blankCanvas 512 512)"
  proof
    assume "paintLoop demoWorld ?b clashOrder (blankCanvas 512 512) =
        paintLoop demoWorld ?b (rev clashOrder) (blankCanvas 512 512)"
    then have "pix (paintLoop demoWorld ?b clashOrder (blankCanvas 512 512)) 0 0 =
        pix (paintLoop demoWorld ?b (rev clashOrder) (blankCanvas 512 512)) 0 0" by simp
    then show False unfolding 1 2 by simp
  qed
  then show ?thesis
    using v by (simp add: export_reply [OF v(1) s] k tileSize_def blankCanvas_def)
qed

section \<open>Tiles that do not load\<close>








end
